theory Spec2Isabelle
  imports Main "HOL-Library.Word"
begin

section \<open>The speech-to-text service of \<^verbatim>\<open>src/stt/main.py\<close>\<close>

text \<open>
  The module loads one recognition model at import time and serves two routes:
  \<^verbatim>\<open>POST /transcribe\<close> and \<^verbatim>\<open>GET /health\<close>. The recognition engine
  (\<^verbatim>\<open>faster_whisper.WhisperModel\<close>) and the web framework are libraries, not code of
  the module. The engine is a parameter of the model; of the framework only the three
  conventions the routes rely on are written down (a required form field, the rendering
  of an \<^verbatim>\<open>HTTPException\<close>, the rendering of a returned dict), and of its
  \<^verbatim>\<open>JSONResponse\<close> class the construction, which the handler performs itself.
\<close>

subsection \<open>Python values\<close>

text \<open>
  A Python \<^verbatim>\<open>str\<close> is a sequence of Unicode code points, a \<^verbatim>\<open>bytes\<close> object a
  sequence of octets. \<open>str\<close> turns a literal of the theory into the \<^verbatim>\<open>str\<close> with the
  same characters.
\<close>

type_synonym codepoint = nat
type_synonym pystr = "codepoint list"
type_synonym byte = "8 word"
type_synonym bytes = "byte list"

definition str :: "string \<Rightarrow> pystr" where
  "str s = map of_char s"

text \<open>
  \<^verbatim>\<open>str.isspace\<close> for one code point: the characters \<^verbatim>\<open>str.strip()\<close> removes when it
  is called without an argument (U+0009..U+000D, U+001C..U+0020, U+0085, U+00A0, U+1680,
  U+2000..U+200A, U+2028, U+2029, U+202F, U+205F, U+3000).
\<close>

definition isspace :: "codepoint \<Rightarrow> bool" where
  "isspace c \<longleftrightarrow>
     (9 \<le> c \<and> c \<le> 13) \<or> (28 \<le> c \<and> c \<le> 32) \<or> c = 133 \<or> c = 160 \<or> c = 5760 \<or>
     (8192 \<le> c \<and> c \<le> 8202) \<or> c = 8232 \<or> c = 8233 \<or> c = 8239 \<or> c = 8287 \<or>
     c = 12288"

definition lstrip :: "pystr \<Rightarrow> pystr" where
  "lstrip s = dropWhile isspace s"

definition rstrip :: "pystr \<Rightarrow> pystr" where
  "rstrip s = rev (dropWhile isspace (rev s))"

definition strip :: "pystr \<Rightarrow> pystr" where
  "strip s = rstrip (lstrip s)"

text \<open>\<^verbatim>\<open>sep.join(xs)\<close>: the separator stands between neighbours only.\<close>

fun join :: "pystr \<Rightarrow> pystr list \<Rightarrow> pystr" where
  "join sep [] = []"
| "join sep [x] = x"
| "join sep (x # y # ys) = x @ sep @ join sep (y # ys)"

text \<open>
  An instance of \<^verbatim>\<open>Exception\<close> (what \<^verbatim>\<open>except Exception\<close> catches), with its class
  name and its message.
\<close>

datatype exn = Exception pystr pystr

text \<open>A JSON value; an object keeps the insertion order of the dict it renders.\<close>

datatype json =
    JNull
  | JBool bool
  | JStr pystr
  | JArr "json list"
  | JObj "(pystr \<times> json) list"

text \<open>\<^verbatim>\<open>os.getenv(key, default)\<close> on the process environment.\<close>

definition getenv :: "(pystr \<rightharpoonup> pystr) \<Rightarrow> pystr \<Rightarrow> pystr \<Rightarrow> pystr" where
  "getenv environ key dflt = (case environ key of None \<Rightarrow> dflt | Some v \<Rightarrow> v)"

subsection \<open>The recognition engine\<close>

text \<open>
  What the module reads of the engine's results: a segment's \<^verbatim>\<open>text\<close> and the
  \<^verbatim>\<open>language\<close> of the info object.
\<close>

record Segment =
  seg_text :: pystr

record TranscriptionInfo =
  language :: pystr

text \<open>
  \<^verbatim>\<open>model.transcribe\<close> returns a generator of segments: recognition runs while the
  generator is consumed, and each step either yields a segment or raises.
\<close>

type_synonym segments = "(exn + Segment) list"

datatype engine_result =
    Raised exn
  | Returned segments TranscriptionInfo

text \<open>One call of \<^verbatim>\<open>model.transcribe\<close>: the instance it is called on and its arguments.\<close>

record 'm transcribe_call =
  self :: 'm
  arg_audio :: bytes
  arg_beam_size :: int
  arg_vad_filter :: bool
  arg_language :: pystr

text \<open>
  The engine is opaque: what a call gives may depend on the call and on every call made
  before it.
\<close>

type_synonym 'm engine = "'m transcribe_call list \<Rightarrow> 'm transcribe_call \<Rightarrow> engine_result"

subsection \<open>Module state\<close>

text \<open>The module-level names bound at import time (lines 6 to 11).\<close>

record 'm globals =
  WHISPER_MODEL :: pystr
  COMPUTE :: pystr
  device :: pystr
  compute_type :: pystr
  model :: 'm

text \<open>
  Import of the module. \<open>WhisperModel\<close> is the engine's constructor, given the model
  size, the device and the compute type; when it raises, the import fails and no request
  is ever served.
\<close>

definition module_init ::
  "(pystr \<Rightarrow> pystr \<Rightarrow> pystr \<Rightarrow> exn + 'm) \<Rightarrow> (pystr \<rightharpoonup> pystr) \<Rightarrow> exn + 'm globals" where
  "module_init WhisperModel environ =
     (let whisper_model = getenv environ (str ''WHISPER_MODEL'') (str ''base'');
          compute = getenv environ (str ''WHISPER_COMPUTE'') (str ''auto'');
          dev = (if compute = str ''cuda'' then str ''cuda'' else str ''auto'');
          ctype = (if dev = str ''cuda'' then str ''float16'' else str ''int8'')
      in case WhisperModel whisper_model dev ctype of
           Inl e \<Rightarrow> Inl e
         | Inr m \<Rightarrow>
             Inr \<lparr>WHISPER_MODEL = whisper_model, COMPUTE = compute, device = dev,
                  compute_type = ctype, model = m\<rparr>)"

text \<open>
  What a request handler can touch: the module's globals, and the engine, whose use is
  recorded as the list of calls made so far.
\<close>

record 'm world =
  globals :: "'m globals"
  engine_calls :: "'m transcribe_call list"

subsection \<open>Requests and responses\<close>

record UploadFile =
  content :: bytes

text \<open>\<^verbatim>\<open>await audio.read()\<close> on a fresh upload gives its whole content.\<close>

definition read :: "UploadFile \<Rightarrow> bytes" where
  "read audio = content audio"

record HTTPException =
  status_code :: nat
  detail :: pystr
  cause :: "exn option"

record Response =
  status :: nat
  body :: json

text \<open>
  A code point that UTF-8 encodes: any but the surrogates U+D800..U+DFFF (a \<^verbatim>\<open>str\<close>
  holds no code point above U+10FFFF).
\<close>

definition utf8_encodable :: "codepoint \<Rightarrow> bool" where
  "utf8_encodable c \<longleftrightarrow> c < 55296 \<or> (57343 < c \<and> c < 1114112)"

text \<open>A JSON value all of whose strings, keys included, encode.\<close>

primrec encodable :: "json \<Rightarrow> bool" where
  "encodable JNull = True"
| "encodable (JBool b) = True"
| "encodable (JStr s) = list_all utf8_encodable s"
| "encodable (JArr xs) = list_all id (map encodable xs)"
| "encodable (JObj kvs) =
     list_all (\<lambda>(k, ok). list_all utf8_encodable k \<and> ok) (map (map_prod id encodable) kvs)"

text \<open>
  \<^verbatim>\<open>JSONResponse(content)\<close>: the constructor renders the content to JSON text and
  encodes it as UTF-8 at once. It raises \<^verbatim>\<open>UnicodeEncodeError\<close> on a string that does
  not encode (the message, which also names the character and its position, is
  abridged); otherwise the response has the default status 200.
\<close>

definition JSONResponse :: "json \<Rightarrow> exn + Response" where
  "JSONResponse c =
     (if encodable c then Inr \<lparr>status = 200, body = c\<rparr>
      else Inl (Exception (str ''UnicodeEncodeError'') (str ''surrogates not allowed'')))"

text \<open>
  The framework's answer for a dict that a handler has returned: status 200 with the dict
  as body. This rendering is the framework's, after the handler; the module's globals,
  the only strings it meets here, are taken to encode.
\<close>

definition dict_response :: "json \<Rightarrow> Response" where
  "dict_response d = \<lparr>status = 200, body = d\<rparr>"

text \<open>
  The framework's handler for a raised \<^verbatim>\<open>HTTPException\<close>: the status code and the
  detail, nothing else of the exception.
\<close>

definition http_exception_handler :: "HTTPException \<Rightarrow> Response" where
  "http_exception_handler e =
     \<lparr>status = status_code e, body = JObj [(str ''detail'', JStr (detail e))]\<rparr>"

text \<open>
  The framework's answer when a required parameter is missing: status 422 and the list
  of validation errors \<open>errs\<close>, whose entries depend on the framework's version.
\<close>

definition request_validation_error :: "json list \<Rightarrow> Response" where
  "request_validation_error errs =
     \<lparr>status = 422, body = JObj [(str ''detail'', JArr errs)]\<rparr>"

text \<open>
  A request: the multipart form of \<^verbatim>\<open>POST /transcribe\<close>, with or without a file in
  its \<^verbatim>\<open>audio\<close> field, or \<^verbatim>\<open>GET /health\<close>.
\<close>

datatype Request =
    POST_transcribe "UploadFile option"
  | GET_health

subsection \<open>The handlers\<close>

text \<open>\<^verbatim>\<open>[seg.text for seg in segments]\<close>: stops at the first step that raises.\<close>

fun seg_texts :: "segments \<Rightarrow> exn + pystr list" where
  "seg_texts [] = Inr []"
| "seg_texts (Inl e # rest) = Inl e"
| "seg_texts (Inr seg # rest) =
     (case seg_texts rest of Inl e \<Rightarrow> Inl e | Inr ts \<Rightarrow> Inr (seg_text seg # ts))"

text \<open>
  \<^verbatim>\<open>transcribe\<close> (lines 15 to 30). The result is the exception raised or the response
  returned, with the world after the request. The \<^verbatim>\<open>try\<close> body can raise in three
  places: the call of the engine, a step of the segment generator, the construction of
  the response.
\<close>

definition transcribe ::
  "'m engine \<Rightarrow> 'm world \<Rightarrow> UploadFile \<Rightarrow> (HTTPException + Response) \<times> 'm world" where
  "transcribe eng w audio =
     (let data = read audio in
      if data = [] \<or> length data < 1500
      then (Inl \<lparr>status_code = 400, detail = str ''audio too short'', cause = None\<rparr>, w)
      else
        let call = \<lparr>self = model (globals w), arg_audio = data, arg_beam_size = 1,
                    arg_vad_filter = True, arg_language = str ''en''\<rparr>;
            w' = w\<lparr>engine_calls := engine_calls w @ [call]\<rparr>
        in case eng (engine_calls w) call of
             Raised exc \<Rightarrow>
               (Inl \<lparr>status_code = 422, detail = str ''transcription failed'',
                     cause = Some exc\<rparr>, w')
           | Returned segs info \<Rightarrow>
               (case seg_texts segs of
                  Inl exc \<Rightarrow>
                    (Inl \<lparr>status_code = 422, detail = str ''transcription failed'',
                          cause = Some exc\<rparr>, w')
                | Inr texts \<Rightarrow>
                    (case JSONResponse
                            (JObj [(str ''text'', JStr (strip (join [] texts))),
                                   (str ''language'', JStr (language info))]) of
                       Inl exc \<Rightarrow>
                         (Inl \<lparr>status_code = 422, detail = str ''transcription failed'',
                               cause = Some exc\<rparr>, w')
                     | Inr r \<Rightarrow> (Inr r, w'))))"

text \<open>\<^verbatim>\<open>health\<close> (lines 32 to 34): the dict it returns.\<close>

definition health :: "'m globals \<Rightarrow> json" where
  "health g =
     JObj [(str ''ok'', JBool True), (str ''model'', JStr (WHISPER_MODEL g)),
           (str ''device'', JStr (device g))]"

text \<open>
  The application: routing, the required \<^verbatim>\<open>audio\<close> parameter (\<^verbatim>\<open>File(...)\<close>), and
  the rendering of what a handler raises or returns.
\<close>

definition app ::
  "json list \<Rightarrow> 'm engine \<Rightarrow> 'm world \<Rightarrow> Request \<Rightarrow> Response \<times> 'm world" where
  "app errs eng w req =
     (case req of
        GET_health \<Rightarrow> (dict_response (health (globals w)), w)
      | POST_transcribe None \<Rightarrow> (request_validation_error errs, w)
      | POST_transcribe (Some audio) \<Rightarrow>
          (case transcribe eng w audio of
             (Inl e, w') \<Rightarrow> (http_exception_handler e, w')
           | (Inr r, w') \<Rightarrow> (r, w')))"

text \<open>A sequence of requests, served one after the other.\<close>

fun serve ::
  "json list \<Rightarrow> 'm engine \<Rightarrow> 'm world \<Rightarrow> Request list \<Rightarrow> Response list \<times> 'm world" where
  "serve errs eng w [] = ([], w)"
| "serve errs eng w (req # reqs) =
     (case app errs eng w req of
        (r, w') \<Rightarrow> (case serve errs eng w' reqs of (rs, w'') \<Rightarrow> (r # rs, w'')))"

text \<open>The call \<^verbatim>\<open>transcribe\<close> makes on the engine for an upload (lines 21 to 26).\<close>

abbreviation model_call :: "'m world \<Rightarrow> UploadFile \<Rightarrow> 'm transcribe_call" where
  "model_call w audio \<equiv>
     \<lparr>self = model (globals w), arg_audio = content audio, arg_beam_size = 1,
      arg_vad_filter = True, arg_language = str ''en''\<rparr>"

section \<open>Auxiliary facts\<close>

lemma join_no_separator: "join [] xs = concat xs"
  by (induction "[] :: pystr" xs rule: join.induct) simp_all

lemma seg_texts_yield: "seg_texts (map Inr segs) = Inr (map seg_text segs)"
  by (induction segs) simp_all

lemma seg_texts_raise: "seg_texts (map Inr segs @ Inl e # rest) = Inl e"
  by (induction segs) simp_all


lemma lstrip_split: "s = takeWhile isspace s @ lstrip s"
  by (simp add: lstrip_def)

lemma rstrip_split: "s = rstrip s @ rev (takeWhile isspace (rev s))"
proof -
  have "s = rev (takeWhile isspace (rev s) @ dropWhile isspace (rev s))" by simp
  also have "\<dots> = rev (dropWhile isspace (rev s)) @ rev (takeWhile isspace (rev s))"
    by (rule rev_append)
  finally show ?thesis unfolding rstrip_def .
qed

lemma strip_split:
  "s = takeWhile isspace s @ strip s @ rev (takeWhile isspace (rev (lstrip s)))"
proof -
  have "lstrip s = strip s @ rev (takeWhile isspace (rev (lstrip s)))"
    unfolding strip_def by (rule rstrip_split)
  with lstrip_split [of s] show ?thesis by simp
qed

lemma lstrip_hd: "lstrip s \<noteq> [] \<Longrightarrow> \<not> isspace (hd (lstrip s))"
  unfolding lstrip_def by (rule hd_dropWhile)

lemma rstrip_last: "rstrip s \<noteq> [] \<Longrightarrow> \<not> isspace (last (rstrip s))"
  unfolding rstrip_def by (simp add: last_rev hd_dropWhile)

lemma rstrip_hd: "rstrip s \<noteq> [] \<Longrightarrow> hd (rstrip s) = hd s"
  using rstrip_split [of s] by (metis hd_append2)

lemma strip_ends:
  assumes "strip s \<noteq> []"
  shows "\<not> isspace (hd (strip s))" and "\<not> isspace (last (strip s))"
proof -
  from assms have ne: "rstrip (lstrip s) \<noteq> []" by (simp add: strip_def)
  then have "lstrip s \<noteq> []" by (auto simp: rstrip_def)
  then have "\<not> isspace (hd (lstrip s))" by (rule lstrip_hd)
  with rstrip_hd [OF ne] show "\<not> isspace (hd (strip s))" by (simp add: strip_def)
  from rstrip_last [OF ne] show "\<not> isspace (last (strip s))" by (simp add: strip_def)
qed


lemma transcribe_short:
  "length (content audio) < 1500 \<Longrightarrow>
   transcribe eng w audio =
     (Inl \<lparr>status_code = 400, detail = str ''audio too short'', cause = None\<rparr>, w)"
  by (simp add: transcribe_def read_def)

lemma transcribe_long_calls:
  "1500 \<le> length (content audio) \<Longrightarrow>
   engine_calls (snd (transcribe eng w audio)) =
     engine_calls w @
       [\<lparr>self = model (globals w), arg_audio = content audio, arg_beam_size = 1,
         arg_vad_filter = True, arg_language = str ''en''\<rparr>]"
  by (auto simp: transcribe_def read_def Let_def split: engine_result.splits sum.splits)

lemma transcribe_long_result:
  "1500 \<le> length (content audio) \<Longrightarrow>
   fst (transcribe eng w audio) =
     (case eng (engine_calls w)
             \<lparr>self = model (globals w), arg_audio = content audio, arg_beam_size = 1,
               arg_vad_filter = True, arg_language = str ''en''\<rparr> of
        Raised exc \<Rightarrow>
          Inl \<lparr>status_code = 422, detail = str ''transcription failed'', cause = Some exc\<rparr>
      | Returned segs info \<Rightarrow>
          (case seg_texts segs of
             Inl exc \<Rightarrow>
               Inl \<lparr>status_code = 422, detail = str ''transcription failed'',
                    cause = Some exc\<rparr>
           | Inr texts \<Rightarrow>
               (case JSONResponse
                       (JObj [(str ''text'', JStr (strip (join [] texts))),
                              (str ''language'', JStr (language info))]) of
                  Inl exc \<Rightarrow>
                    Inl \<lparr>status_code = 422, detail = str ''transcription failed'',
                         cause = Some exc\<rparr>
                | Inr r \<Rightarrow> Inr r)))"
  by (auto simp: transcribe_def read_def Let_def split: engine_result.splits sum.splits)

lemma transcribe_long_world:
  "1500 \<le> length (content audio) \<Longrightarrow>
   snd (transcribe eng w audio) =
     w\<lparr>engine_calls := engine_calls w @
         [\<lparr>self = model (globals w), arg_audio = content audio, arg_beam_size = 1,
           arg_vad_filter = True, arg_language = str ''en''\<rparr>]\<rparr>"
  by (auto simp: transcribe_def read_def Let_def split: engine_result.splits sum.splits)

lemma JSONResponse_status: "JSONResponse c = Inr r \<Longrightarrow> status r = 200 \<and> body r = c"
  by (auto simp: JSONResponse_def split: if_splits)

lemma transcribe_globals: "globals (snd (transcribe eng w audio)) = globals w"
  by (auto simp: transcribe_def Let_def split: engine_result.splits sum.splits)

lemma app_fst_transcribe:
  "fst (app errs eng w (POST_transcribe (Some audio))) =
     (case fst (transcribe eng w audio) of Inl e \<Rightarrow> http_exception_handler e | Inr r \<Rightarrow> r)"
  by (simp add: app_def split: prod.splits sum.splits)

lemma app_snd_transcribe:
  "snd (app errs eng w (POST_transcribe (Some audio))) = snd (transcribe eng w audio)"
  by (simp add: app_def split: prod.splits sum.splits)

lemma transcribe_long_status:
  "1500 \<le> length (content audio) \<Longrightarrow>
   status (fst (app errs eng w (POST_transcribe (Some audio)))) \<in> {200, 422}"
  by (auto simp: app_fst_transcribe transcribe_long_result http_exception_handler_def
      dest: JSONResponse_status split: engine_result.splits sum.splits)

lemma app_globals: "globals (snd (app errs eng w req)) = globals w"
proof (cases req)
  case (POST_transcribe f)
  show ?thesis
  proof (cases f)
    case None
    with POST_transcribe show ?thesis by (simp add: app_def)
  next
    case (Some audio)
    with POST_transcribe show ?thesis
      by (simp only: app_snd_transcribe transcribe_globals)
  qed
next
  case GET_health
  then show ?thesis by (simp add: app_def)
qed

lemma serve_globals: "globals (snd (serve errs eng w reqs)) = globals w"
proof (induction reqs arbitrary: w)
  case Nil
  show ?case by simp
next
  case (Cons req reqs)
  obtain r w' where a: "app errs eng w req = (r, w')" by (cases "app errs eng w req")
  obtain rs w'' where s: "serve errs eng w' reqs = (rs, w'')" by (cases "serve errs eng w' reqs")
  from a have "globals w' = globals w" using app_globals [of errs eng w req] by simp
  moreover from s have "globals w'' = globals w'" using Cons.IH [of w'] by simp
  ultimately show ?case using a s by simp
qed


section \<open>The claims\<close>

text \<open>
  C1. A payload shorter than 1500 bytes, the empty one included, is answered by
  \<^verbatim>\<open>POST /transcribe\<close> with status 400 and the detail "audio too short". A payload of
  1500 bytes or more passes the size check: the handler does not raise that exception
  and the answer has status 200 or 422.
\<close>

theorem transcribe_size_check:
  "(length (content audio) < 1500 \<longrightarrow>
      fst (app errs eng w (POST_transcribe (Some audio))) =
        \<lparr>status = 400, body = JObj [(str ''detail'', JStr (str ''audio too short''))]\<rparr>) \<and>
   (1500 \<le> length (content audio) \<longrightarrow>
      fst (transcribe eng w audio) \<noteq>
        Inl \<lparr>status_code = 400, detail = str ''audio too short'', cause = None\<rparr> \<and>
      status (fst (app errs eng w (POST_transcribe (Some audio)))) \<in> {200, 422})"
proof (intro conjI impI)
  assume "length (content audio) < 1500"
  then show "fst (app errs eng w (POST_transcribe (Some audio))) =
      \<lparr>status = 400, body = JObj [(str ''detail'', JStr (str ''audio too short''))]\<rparr>"
    by (simp add: app_fst_transcribe transcribe_short http_exception_handler_def)
next
  assume long: "1500 \<le> length (content audio)"
  show "fst (transcribe eng w audio) \<noteq>
      Inl \<lparr>status_code = 400, detail = str ''audio too short'', cause = None\<rparr>"
    by (simp add: transcribe_long_result [OF long] split: engine_result.splits sum.splits)
  show "status (fst (app errs eng w (POST_transcribe (Some audio)))) \<in> {200, 422}"
    using long by (rule transcribe_long_status)
qed

text \<open>C1 at payloads of 1499 and of 1500 zero bytes.\<close>

theorem transcribe_size_check_witness:
  "fst (app [] (\<lambda>h c. Raised (Exception (str ''ValueError'') (str ''no audio'')))
         \<lparr>globals = \<lparr>WHISPER_MODEL = str ''base'', COMPUTE = str ''auto'', device = str ''auto'',
                      compute_type = str ''int8'', model = ()\<rparr>, engine_calls = []\<rparr>
         (POST_transcribe (Some \<lparr>content = replicate 1499 0\<rparr>))) =
     \<lparr>status = 400, body = JObj [(str ''detail'', JStr (str ''audio too short''))]\<rparr> \<and>
   status (fst (app [] (\<lambda>h c. Raised (Exception (str ''ValueError'') (str ''no audio'')))
         \<lparr>globals = \<lparr>WHISPER_MODEL = str ''base'', COMPUTE = str ''auto'', device = str ''auto'',
                      compute_type = str ''int8'', model = ()\<rparr>, engine_calls = []\<rparr>
         (POST_transcribe (Some \<lparr>content = replicate 1500 0\<rparr>)))) \<in> {200, 422}"
  using
    transcribe_size_check [of "\<lparr>content = replicate 1499 0\<rparr>" "[]"
      "\<lambda>h c. Raised (Exception (str ''ValueError'') (str ''no audio''))"
      "\<lparr>globals = \<lparr>WHISPER_MODEL = str ''base'', COMPUTE = str ''auto'', device = str ''auto'',
                   compute_type = str ''int8'', model = ()\<rparr>, engine_calls = []\<rparr>"]
    transcribe_size_check [of "\<lparr>content = replicate 1500 0\<rparr>" "[]"
      "\<lambda>h c. Raised (Exception (str ''ValueError'') (str ''no audio''))"
      "\<lparr>globals = \<lparr>WHISPER_MODEL = str ''base'', COMPUTE = str ''auto'', device = str ''auto'',
                   compute_type = str ''int8'', model = ()\<rparr>, engine_calls = []\<rparr>"]
  by simp

text \<open>
  C2, as stated, fails. The response is constructed inside the \<^verbatim>\<open>try\<close> (line 28), so
  when the engine has processed the payload without an exception but the text does not
  encode as UTF-8, the construction raises and the answer is the status 422, not 200.
  Here the engine emits one segment with the text \<^verbatim>\<open>a\ud800b\<close>.
\<close>

theorem transcribe_success_counterexample:
  "fst (app []
         (\<lambda>h c. Returned [Inr \<lparr>seg_text = [97, 55296, 98]\<rparr>] \<lparr>language = str ''en''\<rparr>)
         \<lparr>globals = \<lparr>WHISPER_MODEL = str ''base'', COMPUTE = str ''auto'', device = str ''auto'',
                      compute_type = str ''int8'', model = ()\<rparr>, engine_calls = []\<rparr>
         (POST_transcribe (Some \<lparr>content = replicate 1500 0\<rparr>))) =
     \<lparr>status = 422, body = JObj [(str ''detail'', JStr (str ''transcription failed''))]\<rparr> \<and>
   status (fst (app []
         (\<lambda>h c. Returned [Inr \<lparr>seg_text = [97, 55296, 98]\<rparr>] \<lparr>language = str ''en''\<rparr>)
         \<lparr>globals = \<lparr>WHISPER_MODEL = str ''base'', COMPUTE = str ''auto'', device = str ''auto'',
                      compute_type = str ''int8'', model = ()\<rparr>, engine_calls = []\<rparr>
         (POST_transcribe (Some \<lparr>content = replicate 1500 0\<rparr>)))) \<noteq> 200"
  by (simp add: app_def transcribe_def read_def Let_def JSONResponse_def
      http_exception_handler_def strip_def lstrip_def rstrip_def isspace_def
      utf8_encodable_def str_def)

text \<open>
  C2, amended. When a payload of at least 1500 bytes is processed without an exception
  (the engine returns, and every step of the segment generator yields a segment) and the
  result encodes as UTF-8 (neither the stripped text nor the language holds a
  surrogate), the answer of \<^verbatim>\<open>POST /transcribe\<close> has status 200, its \<^verbatim>\<open>language\<close>
  field is the language the engine reports, and its \<^verbatim>\<open>text\<close> field \<open>t\<close> is the
  concatenation of the segment texts in the order of their emission, nothing put between
  them, without its leading and trailing whitespace: the concatenation is \<open>l @ t @ r\<close>
  with \<open>l\<close> and \<open>r\<close> all whitespace, and \<open>t\<close> is empty or neither starts nor ends with
  whitespace.
\<close>

theorem transcribe_success:
  assumes long: "1500 \<le> length (content audio)"
    and ok: "eng (engine_calls w) (model_call w audio) = Returned (map Inr segs) info"
    and enc_text: "list_all utf8_encodable (strip (concat (map seg_text segs)))"
    and enc_language: "list_all utf8_encodable (language info)"
  shows "\<exists>t l r.
     fst (app errs eng w (POST_transcribe (Some audio))) =
       \<lparr>status = 200,
        body = JObj [(str ''text'', JStr t), (str ''language'', JStr (language info))]\<rparr> \<and>
     t = strip (concat (map seg_text segs)) \<and>
     concat (map seg_text segs) = l @ t @ r \<and>
     (\<forall>c \<in> set l. isspace c) \<and> (\<forall>c \<in> set r. isspace c) \<and>
     (t = [] \<or> (\<not> isspace (hd t) \<and> \<not> isspace (last t)))"
proof -
  let ?s = "concat (map seg_text segs)"
  let ?l = "takeWhile isspace ?s"
  let ?r = "rev (takeWhile isspace (rev (lstrip ?s)))"
  have keys: "list_all utf8_encodable (str ''text'')" "list_all utf8_encodable (str ''language'')"
    by (simp_all add: str_def utf8_encodable_def)
  have render: "JSONResponse (JObj [(str ''text'', JStr (strip ?s)),
                     (str ''language'', JStr (language info))]) =
       Inr \<lparr>status = 200,
        body = JObj [(str ''text'', JStr (strip ?s)),
                     (str ''language'', JStr (language info))]\<rparr>"
    using enc_text enc_language keys by (simp add: JSONResponse_def)
  have resp: "fst (app errs eng w (POST_transcribe (Some audio))) =
       \<lparr>status = 200,
        body = JObj [(str ''text'', JStr (strip ?s)),
                     (str ''language'', JStr (language info))]\<rparr>"
    by (simp add: app_fst_transcribe transcribe_long_result [OF long] ok seg_texts_yield
        join_no_separator render)
  have split: "?s = ?l @ strip ?s @ ?r" by (rule strip_split)
  have left: "\<forall>c \<in> set ?l. isspace c" by (auto dest: set_takeWhileD)
  have right: "\<forall>c \<in> set ?r. isspace c" by (auto dest: set_takeWhileD)
  have ends: "strip ?s = [] \<or> (\<not> isspace (hd (strip ?s)) \<and> \<not> isspace (last (strip ?s)))"
    using strip_ends [of ?s] by blast
  from resp split left right ends show ?thesis by blast
qed

text \<open>
  The amended C2 at an engine that emits the segments " hello" and " world " and reports
  the language "en".
\<close>

theorem transcribe_success_witness:
  "fst (app []
         (\<lambda>h c. Returned [Inr \<lparr>seg_text = str '' hello''\<rparr>, Inr \<lparr>seg_text = str '' world ''\<rparr>]
                   \<lparr>language = str ''en''\<rparr>)
         \<lparr>globals = \<lparr>WHISPER_MODEL = str ''base'', COMPUTE = str ''auto'', device = str ''auto'',
                      compute_type = str ''int8'', model = ()\<rparr>, engine_calls = []\<rparr>
         (POST_transcribe (Some \<lparr>content = replicate 1500 0\<rparr>))) =
     \<lparr>status = 200,
      body = JObj [(str ''text'', JStr (str ''hello world'')),
                   (str ''language'', JStr (str ''en''))]\<rparr>"
proof -
  have len: "1500 \<le> length (content \<lparr>content = replicate 1500 (0 :: byte)\<rparr>)" by simp
  have st: "strip (concat (map seg_text [\<lparr>seg_text = str '' hello''\<rparr>, \<lparr>seg_text = str '' world ''\<rparr>])) =
      str ''hello world''"
    by (simp add: strip_def lstrip_def rstrip_def str_def isspace_def)
  have enc_text: "list_all utf8_encodable
      (strip (concat (map seg_text [\<lparr>seg_text = str '' hello''\<rparr>, \<lparr>seg_text = str '' world ''\<rparr>])))"
    unfolding st by (simp add: str_def utf8_encodable_def)
  have enc_language: "list_all utf8_encodable (language \<lparr>language = str ''en''\<rparr>)"
    by (simp add: str_def utf8_encodable_def)
  from transcribe_success [OF len _ enc_text enc_language,
      of "\<lambda>h c. Returned [Inr \<lparr>seg_text = str '' hello''\<rparr>, Inr \<lparr>seg_text = str '' world ''\<rparr>]
                   \<lparr>language = str ''en''\<rparr>"
         "\<lparr>globals = \<lparr>WHISPER_MODEL = str ''base'', COMPUTE = str ''auto'', device = str ''auto'',
                      compute_type = str ''int8'', model = ()\<rparr>, engine_calls = []\<rparr>" "[]"]
  show ?thesis unfolding st by auto
qed

text \<open>
  C3. When a payload passes the size check and an exception is raised in the \<^verbatim>\<open>try\<close>
  body, by the call of the engine, by a step of the segment generator while the texts
  are collected, or by the construction of the response from the assembled result, the
  handler raises the \<^verbatim>\<open>HTTPException\<close> with status 422 and the detail
  "transcription failed", and the answer of \<^verbatim>\<open>POST /transcribe\<close> is that status with
  that detail: a fixed value, the same for every exception \<open>exc\<close>, of which it holds
  nothing (the exception is kept as the cause only, which the answer does not render).
\<close>

theorem transcribe_failure:
  assumes long: "1500 \<le> length (content audio)"
    and fails: "eng (engine_calls w) (model_call w audio) = Raised exc \<or>
      (\<exists>segs info. eng (engine_calls w) (model_call w audio) = Returned segs info \<and>
         (seg_texts segs = Inl exc \<or>
          (\<exists>texts. seg_texts segs = Inr texts \<and>
             JSONResponse
               (JObj [(str ''text'', JStr (strip (join [] texts))),
                      (str ''language'', JStr (language info))]) = Inl exc)))"
  shows "fst (transcribe eng w audio) =
       Inl \<lparr>status_code = 422, detail = str ''transcription failed'', cause = Some exc\<rparr> \<and>
     fst (app errs eng w (POST_transcribe (Some audio))) =
       \<lparr>status = 422, body = JObj [(str ''detail'', JStr (str ''transcription failed''))]\<rparr>"
proof -
  from fails have raised: "fst (transcribe eng w audio) =
       Inl \<lparr>status_code = 422, detail = str ''transcription failed'', cause = Some exc\<rparr>"
    by (auto simp: transcribe_long_result [OF long])
  then show ?thesis
    by (simp add: app_fst_transcribe http_exception_handler_def)
qed

text \<open>
  C3 at an engine whose call raises, at one whose generator raises after its first
  segment, and at one whose text \<^verbatim>\<open>a\ud800b\<close> makes the construction of the response
  raise.
\<close>

theorem transcribe_failure_witness:
  "fst (app [] (\<lambda>h c. Raised (Exception (str ''ValueError'') (str ''invalid data'')))
         \<lparr>globals = \<lparr>WHISPER_MODEL = str ''base'', COMPUTE = str ''auto'', device = str ''auto'',
                      compute_type = str ''int8'', model = ()\<rparr>, engine_calls = []\<rparr>
         (POST_transcribe (Some \<lparr>content = replicate 1500 0\<rparr>))) =
     \<lparr>status = 422, body = JObj [(str ''detail'', JStr (str ''transcription failed''))]\<rparr> \<and>
   fst (app []
         (\<lambda>h c. Returned [Inr \<lparr>seg_text = str ''hello''\<rparr>,
                           Inl (Exception (str ''RuntimeError'') (str ''decoder failed''))]
                   \<lparr>language = str ''en''\<rparr>)
         \<lparr>globals = \<lparr>WHISPER_MODEL = str ''base'', COMPUTE = str ''auto'', device = str ''auto'',
                      compute_type = str ''int8'', model = ()\<rparr>, engine_calls = []\<rparr>
         (POST_transcribe (Some \<lparr>content = replicate 1500 0\<rparr>))) =
     \<lparr>status = 422, body = JObj [(str ''detail'', JStr (str ''transcription failed''))]\<rparr> \<and>
   fst (app []
         (\<lambda>h c. Returned [Inr \<lparr>seg_text = [97, 55296, 98]\<rparr>] \<lparr>language = str ''en''\<rparr>)
         \<lparr>globals = \<lparr>WHISPER_MODEL = str ''base'', COMPUTE = str ''auto'', device = str ''auto'',
                      compute_type = str ''int8'', model = ()\<rparr>, engine_calls = []\<rparr>
         (POST_transcribe (Some \<lparr>content = replicate 1500 0\<rparr>))) =
     \<lparr>status = 422, body = JObj [(str ''detail'', JStr (str ''transcription failed''))]\<rparr>"
proof -
  have len: "1500 \<le> length (content \<lparr>content = replicate 1500 (0 :: byte)\<rparr>)" by simp
  have render: "JSONResponse
      (JObj [(str ''text'', JStr (strip (join [] [[97, 55296, 98]]))),
             (str ''language'', JStr (language \<lparr>language = str ''en''\<rparr>))]) =
      Inl (Exception (str ''UnicodeEncodeError'') (str ''surrogates not allowed''))"
    by (simp add: JSONResponse_def strip_def lstrip_def rstrip_def isspace_def
        utf8_encodable_def str_def)
  have a: "fst (app [] (\<lambda>h c. Raised (Exception (str ''ValueError'') (str ''invalid data'')))
         \<lparr>globals = \<lparr>WHISPER_MODEL = str ''base'', COMPUTE = str ''auto'', device = str ''auto'',
                      compute_type = str ''int8'', model = ()\<rparr>, engine_calls = []\<rparr>
         (POST_transcribe (Some \<lparr>content = replicate 1500 0\<rparr>))) =
     \<lparr>status = 422, body = JObj [(str ''detail'', JStr (str ''transcription failed''))]\<rparr>"
    using transcribe_failure [OF len,
      of "\<lambda>h c. Raised (Exception (str ''ValueError'') (str ''invalid data''))"
      "\<lparr>globals = \<lparr>WHISPER_MODEL = str ''base'', COMPUTE = str ''auto'', device = str ''auto'',
                   compute_type = str ''int8'', model = ()\<rparr>, engine_calls = []\<rparr>"
      "Exception (str ''ValueError'') (str ''invalid data'')" "[]"]
    by simp
  have b: "fst (app []
         (\<lambda>h c. Returned [Inr \<lparr>seg_text = str ''hello''\<rparr>,
                           Inl (Exception (str ''RuntimeError'') (str ''decoder failed''))]
                   \<lparr>language = str ''en''\<rparr>)
         \<lparr>globals = \<lparr>WHISPER_MODEL = str ''base'', COMPUTE = str ''auto'', device = str ''auto'',
                      compute_type = str ''int8'', model = ()\<rparr>, engine_calls = []\<rparr>
         (POST_transcribe (Some \<lparr>content = replicate 1500 0\<rparr>))) =
     \<lparr>status = 422, body = JObj [(str ''detail'', JStr (str ''transcription failed''))]\<rparr>"
    using transcribe_failure [OF len,
      of "\<lambda>h c. Returned [Inr \<lparr>seg_text = str ''hello''\<rparr>,
                        Inl (Exception (str ''RuntimeError'') (str ''decoder failed''))]
                \<lparr>language = str ''en''\<rparr>"
      "\<lparr>globals = \<lparr>WHISPER_MODEL = str ''base'', COMPUTE = str ''auto'', device = str ''auto'',
                   compute_type = str ''int8'', model = ()\<rparr>, engine_calls = []\<rparr>"
      "Exception (str ''RuntimeError'') (str ''decoder failed'')" "[]"]
    by simp
  have c: "fst (app []
         (\<lambda>h c. Returned [Inr \<lparr>seg_text = [97, 55296, 98]\<rparr>] \<lparr>language = str ''en''\<rparr>)
         \<lparr>globals = \<lparr>WHISPER_MODEL = str ''base'', COMPUTE = str ''auto'', device = str ''auto'',
                      compute_type = str ''int8'', model = ()\<rparr>, engine_calls = []\<rparr>
         (POST_transcribe (Some \<lparr>content = replicate 1500 0\<rparr>))) =
     \<lparr>status = 422, body = JObj [(str ''detail'', JStr (str ''transcription failed''))]\<rparr>"
    using render transcribe_failure [OF len,
      of "\<lambda>h c. Returned [Inr \<lparr>seg_text = [97, 55296, 98]\<rparr>] \<lparr>language = str ''en''\<rparr>"
      "\<lparr>globals = \<lparr>WHISPER_MODEL = str ''base'', COMPUTE = str ''auto'', device = str ''auto'',
                   compute_type = str ''int8'', model = ()\<rparr>, engine_calls = []\<rparr>"
      "Exception (str ''UnicodeEncodeError'') (str ''surrogates not allowed'')" "[]"]
    by simp
  from a b c show ?thesis by simp
qed

text \<open>
  C4, as stated, fails. The \<^verbatim>\<open>audio\<close> parameter is declared required
  (\<^verbatim>\<open>File(...)\<close>): for a request without the field the framework answers before the
  handler runs, and its answer is not the status 400 with the detail "audio too short".
\<close>

theorem missing_audio_field_counterexample:
  "fst (app [JObj [(str ''type'', JStr (str ''missing'')),
                   (str ''loc'', JArr [JStr (str ''body''), JStr (str ''audio'')]),
                   (str ''msg'', JStr (str ''Field required''))]]
         (\<lambda>h c. Raised (Exception (str ''ValueError'') (str ''invalid data'')))
         \<lparr>globals = \<lparr>WHISPER_MODEL = str ''base'', COMPUTE = str ''auto'', device = str ''auto'',
                      compute_type = str ''int8'', model = ()\<rparr>, engine_calls = []\<rparr>
         (POST_transcribe None)) \<noteq>
     \<lparr>status = 400, body = JObj [(str ''detail'', JStr (str ''audio too short''))]\<rparr>"
  by (simp add: app_def request_validation_error_def)

text \<open>
  C4, amended. A request to \<^verbatim>\<open>POST /transcribe\<close> without the \<^verbatim>\<open>audio\<close> field is
  answered by the framework's validation of the required parameter: status 422 with the
  list of validation errors, the handler is not run, the engine is not called and the
  world is unchanged. The status 400 with the detail "audio too short" is the answer
  exactly when the field holds a file whose payload is shorter than 1500 bytes.
\<close>

theorem missing_audio_field:
  "app errs eng w (POST_transcribe None) =
     (\<lparr>status = 422, body = JObj [(str ''detail'', JArr errs)]\<rparr>, w) \<and>
   (fst (app errs eng w (POST_transcribe (Some audio))) =
      \<lparr>status = 400, body = JObj [(str ''detail'', JStr (str ''audio too short''))]\<rparr>
    \<longleftrightarrow> length (content audio) < 1500)"
proof
  show "app errs eng w (POST_transcribe None) =
     (\<lparr>status = 422, body = JObj [(str ''detail'', JArr errs)]\<rparr>, w)"
    by (simp add: app_def request_validation_error_def)
next
  show "fst (app errs eng w (POST_transcribe (Some audio))) =
      \<lparr>status = 400, body = JObj [(str ''detail'', JStr (str ''audio too short''))]\<rparr>
    \<longleftrightarrow> length (content audio) < 1500"
  proof (cases "length (content audio) < 1500")
    case True
    then show ?thesis
      by (simp add: app_fst_transcribe transcribe_short http_exception_handler_def)
  next
    case False
    then have long: "1500 \<le> length (content audio)" by simp
    have "status (fst (app errs eng w (POST_transcribe (Some audio)))) \<noteq> 400"
      using transcribe_long_status [OF long, of errs eng w] by auto
    with False show ?thesis by auto
  qed
qed

text \<open>
  The amended C4 at a request without the field and at one with an empty file.
\<close>

theorem missing_audio_field_witness:
  "app [] (\<lambda>h c. Raised (Exception (str ''ValueError'') (str ''invalid data'')))
     \<lparr>globals = \<lparr>WHISPER_MODEL = str ''base'', COMPUTE = str ''auto'', device = str ''auto'',
                  compute_type = str ''int8'', model = ()\<rparr>, engine_calls = []\<rparr>
     (POST_transcribe None) =
   (\<lparr>status = 422, body = JObj [(str ''detail'', JArr [])]\<rparr>,
    \<lparr>globals = \<lparr>WHISPER_MODEL = str ''base'', COMPUTE = str ''auto'', device = str ''auto'',
                 compute_type = str ''int8'', model = ()\<rparr>, engine_calls = []\<rparr>) \<and>
   fst (app [] (\<lambda>h c. Raised (Exception (str ''ValueError'') (str ''invalid data'')))
     \<lparr>globals = \<lparr>WHISPER_MODEL = str ''base'', COMPUTE = str ''auto'', device = str ''auto'',
                  compute_type = str ''int8'', model = ()\<rparr>, engine_calls = []\<rparr>
     (POST_transcribe (Some \<lparr>content = []\<rparr>))) =
   \<lparr>status = 400, body = JObj [(str ''detail'', JStr (str ''audio too short''))]\<rparr>"
  using
    missing_audio_field [of "[]"
      "\<lambda>h c. Raised (Exception (str ''ValueError'') (str ''invalid data''))"
      "\<lparr>globals = \<lparr>WHISPER_MODEL = str ''base'', COMPUTE = str ''auto'', device = str ''auto'',
                   compute_type = str ''int8'', model = ()\<rparr>, engine_calls = []\<rparr>"
      "\<lparr>content = []\<rparr>"]
  by simp

text \<open>
  C5. After any sequence of requests, \<^verbatim>\<open>GET /health\<close> answers with status 200 and
  the body \<^verbatim>\<open>{ok: true, model: WHISPER_MODEL, device: device}\<close> read from the module's
  globals as they were before the sequence, and leaves the world as it found it. The
  handler takes nothing of the request, and it returns a dict on every path.
\<close>

theorem health_always_ok:
  "app errs eng (snd (serve errs eng w reqs)) GET_health =
     (\<lparr>status = 200,
       body = JObj [(str ''ok'', JBool True), (str ''model'', JStr (WHISPER_MODEL (globals w))),
                    (str ''device'', JStr (device (globals w)))]\<rparr>,
      snd (serve errs eng w reqs))"
  by (simp add: app_def health_def dict_response_def serve_globals)

text \<open>
  C5 after a transcription that fails, a health check, a request without the field and
  an empty upload.
\<close>

theorem health_always_ok_witness:
  "fst (app [] (\<lambda>h c. Raised (Exception (str ''ValueError'') (str ''invalid data'')))
     (snd (serve [] (\<lambda>h c. Raised (Exception (str ''ValueError'') (str ''invalid data'')))
        \<lparr>globals = \<lparr>WHISPER_MODEL = str ''small'', COMPUTE = str ''cuda'', device = str ''cuda'',
                     compute_type = str ''float16'', model = ()\<rparr>, engine_calls = []\<rparr>
        [POST_transcribe (Some \<lparr>content = replicate 1500 0\<rparr>), GET_health,
         POST_transcribe None, POST_transcribe (Some \<lparr>content = []\<rparr>)]))
     GET_health) =
   \<lparr>status = 200,
    body = JObj [(str ''ok'', JBool True), (str ''model'', JStr (str ''small'')),
                 (str ''device'', JStr (str ''cuda''))]\<rparr>"
  using
    health_always_ok [of "[]"
      "\<lambda>h c. Raised (Exception (str ''ValueError'') (str ''invalid data''))"
      "\<lparr>globals = \<lparr>WHISPER_MODEL = str ''small'', COMPUTE = str ''cuda'', device = str ''cuda'',
                   compute_type = str ''float16'', model = ()\<rparr>, engine_calls = []\<rparr>"
      "[POST_transcribe (Some \<lparr>content = replicate 1500 0\<rparr>), GET_health,
        POST_transcribe None, POST_transcribe (Some \<lparr>content = []\<rparr>)]"]
  by simp

text \<open>
  C6. When the import of the module succeeds, \<^verbatim>\<open>WHISPER_MODEL\<close> is the environment
  variable of that name, or "base" when it is unset; \<^verbatim>\<open>COMPUTE\<close> is the variable
  \<^verbatim>\<open>WHISPER_COMPUTE\<close>, or "auto" when it is unset; \<^verbatim>\<open>device\<close> is "cuda" exactly when
  \<^verbatim>\<open>WHISPER_COMPUTE\<close> is set to "cuda", and "auto" in every other case, unset included.
\<close>

theorem config_resolution:
  assumes "module_init WhisperModel environ = Inr g"
  shows "WHISPER_MODEL g =
       (case environ (str ''WHISPER_MODEL'') of None \<Rightarrow> str ''base'' | Some v \<Rightarrow> v) \<and>
     COMPUTE g =
       (case environ (str ''WHISPER_COMPUTE'') of None \<Rightarrow> str ''auto'' | Some v \<Rightarrow> v) \<and>
     (device g = str ''cuda'' \<longleftrightarrow> environ (str ''WHISPER_COMPUTE'') = Some (str ''cuda'')) \<and>
     (device g = str ''auto'' \<longleftrightarrow> environ (str ''WHISPER_COMPUTE'') \<noteq> Some (str ''cuda''))"
  using assms
  by (auto simp: module_init_def getenv_def Let_def str_def split: sum.splits option.splits if_splits)

text \<open>
  C6 at the empty environment and at one that sets both variables.
\<close>

theorem config_resolution_witness:
  "module_init (\<lambda>size dev ctype. Inr (size, dev, ctype)) Map.empty =
     Inr \<lparr>WHISPER_MODEL = str ''base'', COMPUTE = str ''auto'', device = str ''auto'',
          compute_type = str ''int8'', model = (str ''base'', str ''auto'', str ''int8'')\<rparr> \<and>
   device \<lparr>WHISPER_MODEL = str ''base'', COMPUTE = str ''auto'', device = str ''auto'',
          compute_type = str ''int8'', model = (str ''base'', str ''auto'', str ''int8'')\<rparr>
     = str ''auto'' \<and>
   module_init (\<lambda>size dev ctype. Inr (size, dev, ctype))
       [str ''WHISPER_MODEL'' \<mapsto> str ''small'', str ''WHISPER_COMPUTE'' \<mapsto> str ''cuda''] =
     Inr \<lparr>WHISPER_MODEL = str ''small'', COMPUTE = str ''cuda'', device = str ''cuda'',
          compute_type = str ''float16'', model = (str ''small'', str ''cuda'', str ''float16'')\<rparr> \<and>
   device \<lparr>WHISPER_MODEL = str ''small'', COMPUTE = str ''cuda'', device = str ''cuda'',
          compute_type = str ''float16'', model = (str ''small'', str ''cuda'', str ''float16'')\<rparr>
     = str ''cuda''"
proof -
  have a: "module_init (\<lambda>size dev ctype. Inr (size, dev, ctype)) Map.empty =
     Inr \<lparr>WHISPER_MODEL = str ''base'', COMPUTE = str ''auto'', device = str ''auto'',
          compute_type = str ''int8'', model = (str ''base'', str ''auto'', str ''int8'')\<rparr>"
    by (simp add: module_init_def getenv_def Let_def str_def)
  have b: "module_init (\<lambda>size dev ctype. Inr (size, dev, ctype))
       [str ''WHISPER_MODEL'' \<mapsto> str ''small'', str ''WHISPER_COMPUTE'' \<mapsto> str ''cuda''] =
     Inr \<lparr>WHISPER_MODEL = str ''small'', COMPUTE = str ''cuda'', device = str ''cuda'',
          compute_type = str ''float16'', model = (str ''small'', str ''cuda'', str ''float16'')\<rparr>"
    by (simp add: module_init_def getenv_def Let_def str_def)
  from config_resolution [OF a] config_resolution [OF b] a b show ?thesis by simp
qed

text \<open>
  C7. When the import of the module succeeds, \<^verbatim>\<open>compute_type\<close> is "float16" exactly
  when \<^verbatim>\<open>device\<close> is "cuda" and "int8" in every other case, and the model instance is
  the one the constructor gave for the resolved model size, device and compute type.
\<close>

theorem compute_type_selection:
  assumes "module_init WhisperModel environ = Inr g"
  shows "(compute_type g = str ''float16'' \<longleftrightarrow> device g = str ''cuda'') \<and>
     (compute_type g = str ''int8'' \<longleftrightarrow> device g \<noteq> str ''cuda'') \<and>
     WhisperModel (WHISPER_MODEL g) (device g) (compute_type g) = Inr (model g)"
  using assms
  by (auto simp: module_init_def Let_def str_def split: sum.splits if_splits)

text \<open>
  C7 at \<^verbatim>\<open>WHISPER_COMPUTE=cpu\<close> and at \<^verbatim>\<open>WHISPER_COMPUTE=cuda\<close>.
\<close>

theorem compute_type_selection_witness:
  "module_init (\<lambda>size dev ctype. Inr (size, dev, ctype))
       [str ''WHISPER_COMPUTE'' \<mapsto> str ''cpu''] =
     Inr \<lparr>WHISPER_MODEL = str ''base'', COMPUTE = str ''cpu'', device = str ''auto'',
          compute_type = str ''int8'', model = (str ''base'', str ''auto'', str ''int8'')\<rparr> \<and>
   compute_type \<lparr>WHISPER_MODEL = str ''base'', COMPUTE = str ''cpu'', device = str ''auto'',
          compute_type = str ''int8'', model = (str ''base'', str ''auto'', str ''int8'')\<rparr>
     = str ''int8'' \<and>
   module_init (\<lambda>size dev ctype. Inr (size, dev, ctype))
       [str ''WHISPER_COMPUTE'' \<mapsto> str ''cuda''] =
     Inr \<lparr>WHISPER_MODEL = str ''base'', COMPUTE = str ''cuda'', device = str ''cuda'',
          compute_type = str ''float16'', model = (str ''base'', str ''cuda'', str ''float16'')\<rparr> \<and>
   compute_type \<lparr>WHISPER_MODEL = str ''base'', COMPUTE = str ''cuda'', device = str ''cuda'',
          compute_type = str ''float16'', model = (str ''base'', str ''cuda'', str ''float16'')\<rparr>
     = str ''float16''"
proof -
  have a: "module_init (\<lambda>size dev ctype. Inr (size, dev, ctype))
       [str ''WHISPER_COMPUTE'' \<mapsto> str ''cpu''] =
     Inr \<lparr>WHISPER_MODEL = str ''base'', COMPUTE = str ''cpu'', device = str ''auto'',
          compute_type = str ''int8'', model = (str ''base'', str ''auto'', str ''int8'')\<rparr>"
    by (simp add: module_init_def getenv_def Let_def str_def)
  have b: "module_init (\<lambda>size dev ctype. Inr (size, dev, ctype))
       [str ''WHISPER_COMPUTE'' \<mapsto> str ''cuda''] =
     Inr \<lparr>WHISPER_MODEL = str ''base'', COMPUTE = str ''cuda'', device = str ''cuda'',
          compute_type = str ''float16'', model = (str ''base'', str ''cuda'', str ''float16'')\<rparr>"
    by (simp add: module_init_def getenv_def Let_def str_def)
  from compute_type_selection [OF a] compute_type_selection [OF b] a b show ?thesis
    by (simp add: str_def)
qed

text \<open>
  C8. For a payload that passes the size check, the handler applies the engine at one
  point: the calls made so far and the call on the module's model instance with the
  payload, \<^verbatim>\<open>beam_size=1\<close>, \<^verbatim>\<open>vad_filter=True\<close> and \<^verbatim>\<open>language="en"\<close>. What the
  handler raises or returns is read off the engine's answer to that call; the world after
  the request is the world before with exactly that call added to the calls made; and
  two engines that answer that call alike give the same result and the same world,
  whatever they answer anywhere else.
\<close>

theorem one_engine_call:
  assumes "1500 \<le> length (content audio)"
  shows "fst (transcribe eng w audio) =
       (case eng (engine_calls w)
               \<lparr>self = model (globals w), arg_audio = content audio, arg_beam_size = 1,
                 arg_vad_filter = True, arg_language = str ''en''\<rparr> of
          Raised exc \<Rightarrow>
            Inl \<lparr>status_code = 422, detail = str ''transcription failed'', cause = Some exc\<rparr>
        | Returned segs info \<Rightarrow>
            (case seg_texts segs of
               Inl exc \<Rightarrow>
                 Inl \<lparr>status_code = 422, detail = str ''transcription failed'',
                      cause = Some exc\<rparr>
             | Inr texts \<Rightarrow>
                 (case JSONResponse
                         (JObj [(str ''text'', JStr (strip (join [] texts))),
                                (str ''language'', JStr (language info))]) of
                    Inl exc \<Rightarrow>
                      Inl \<lparr>status_code = 422, detail = str ''transcription failed'',
                           cause = Some exc\<rparr>
                  | Inr r \<Rightarrow> Inr r))) \<and>
     snd (transcribe eng w audio) =
       w\<lparr>engine_calls := engine_calls w @
           [\<lparr>self = model (globals w), arg_audio = content audio, arg_beam_size = 1,
             arg_vad_filter = True, arg_language = str ''en''\<rparr>]\<rparr> \<and>
     engine_calls (snd (app errs eng w (POST_transcribe (Some audio)))) =
       engine_calls w @
         [\<lparr>self = model (globals w), arg_audio = content audio, arg_beam_size = 1,
           arg_vad_filter = True, arg_language = str ''en''\<rparr>] \<and>
     (\<forall>eng'.
        eng' (engine_calls w)
            \<lparr>self = model (globals w), arg_audio = content audio, arg_beam_size = 1,
              arg_vad_filter = True, arg_language = str ''en''\<rparr> =
        eng (engine_calls w)
            \<lparr>self = model (globals w), arg_audio = content audio, arg_beam_size = 1,
              arg_vad_filter = True, arg_language = str ''en''\<rparr> \<longrightarrow>
        transcribe eng' w audio = transcribe eng w audio)"
proof (intro conjI allI impI)
  show "fst (transcribe eng w audio) =
       (case eng (engine_calls w) (model_call w audio) of
          Raised exc \<Rightarrow>
            Inl \<lparr>status_code = 422, detail = str ''transcription failed'', cause = Some exc\<rparr>
        | Returned segs info \<Rightarrow>
            (case seg_texts segs of
               Inl exc \<Rightarrow>
                 Inl \<lparr>status_code = 422, detail = str ''transcription failed'',
                      cause = Some exc\<rparr>
             | Inr texts \<Rightarrow>
                 (case JSONResponse
                         (JObj [(str ''text'', JStr (strip (join [] texts))),
                                (str ''language'', JStr (language info))]) of
                    Inl exc \<Rightarrow>
                      Inl \<lparr>status_code = 422, detail = str ''transcription failed'',
                           cause = Some exc\<rparr>
                  | Inr r \<Rightarrow> Inr r)))"
    using assms by (rule transcribe_long_result)
  show "snd (transcribe eng w audio) =
      w\<lparr>engine_calls := engine_calls w @ [model_call w audio]\<rparr>"
    using assms by (rule transcribe_long_world)
  show "engine_calls (snd (app errs eng w (POST_transcribe (Some audio)))) =
      engine_calls w @ [model_call w audio]"
    using assms by (simp only: app_snd_transcribe transcribe_long_calls)
next
  fix eng' :: "'a engine"
  assume same: "eng' (engine_calls w) (model_call w audio) =
      eng (engine_calls w) (model_call w audio)"
  have "fst (transcribe eng' w audio) = fst (transcribe eng w audio)"
    by (simp only: transcribe_long_result [OF assms] same)
  moreover have "snd (transcribe eng' w audio) = snd (transcribe eng w audio)"
    by (simp only: transcribe_long_world [OF assms])
  ultimately show "transcribe eng' w audio = transcribe eng w audio"
    by (rule prod_eqI)
qed

text \<open>
  C8 at a payload of 1500 zero bytes, no call made before: one call is recorded, and the
  answer of an engine that fails on every other call is that of the engine that never
  fails.
\<close>

theorem one_engine_call_witness:
  "engine_calls (snd (app []
       (\<lambda>h c. Returned [Inr \<lparr>seg_text = str ''hello''\<rparr>] \<lparr>language = str ''en''\<rparr>)
       \<lparr>globals = \<lparr>WHISPER_MODEL = str ''base'', COMPUTE = str ''auto'', device = str ''auto'',
                    compute_type = str ''int8'', model = ()\<rparr>, engine_calls = []\<rparr>
       (POST_transcribe (Some \<lparr>content = replicate 1500 0\<rparr>)))) =
     [\<lparr>self = (), arg_audio = replicate 1500 0, arg_beam_size = 1, arg_vad_filter = True,
       arg_language = str ''en''\<rparr>] \<and>
   transcribe
       (\<lambda>h c. if arg_beam_size c = 1 \<and> arg_vad_filter c \<and> arg_language c = str ''en''
               then Returned [Inr \<lparr>seg_text = str ''hello''\<rparr>] \<lparr>language = str ''en''\<rparr>
               else Raised (Exception (str ''ValueError'') (str ''other call'')))
       \<lparr>globals = \<lparr>WHISPER_MODEL = str ''base'', COMPUTE = str ''auto'', device = str ''auto'',
                    compute_type = str ''int8'', model = ()\<rparr>, engine_calls = []\<rparr>
       \<lparr>content = replicate 1500 0\<rparr> =
   transcribe
       (\<lambda>h c. Returned [Inr \<lparr>seg_text = str ''hello''\<rparr>] \<lparr>language = str ''en''\<rparr>)
       \<lparr>globals = \<lparr>WHISPER_MODEL = str ''base'', COMPUTE = str ''auto'', device = str ''auto'',
                    compute_type = str ''int8'', model = ()\<rparr>, engine_calls = []\<rparr>
       \<lparr>content = replicate 1500 0\<rparr>"
proof -
  have len: "1500 \<le> length (content \<lparr>content = replicate 1500 (0 :: byte)\<rparr>)" by simp
  note at_input = one_engine_call [OF len,
      of "\<lambda>h c. Returned [Inr \<lparr>seg_text = str ''hello''\<rparr>] \<lparr>language = str ''en''\<rparr>"
      "\<lparr>globals = \<lparr>WHISPER_MODEL = str ''base'', COMPUTE = str ''auto'', device = str ''auto'',
                   compute_type = str ''int8'', model = ()\<rparr>, engine_calls = []\<rparr>" "[]"]
  have log: "engine_calls (snd (app []
       (\<lambda>h c. Returned [Inr \<lparr>seg_text = str ''hello''\<rparr>] \<lparr>language = str ''en''\<rparr>)
       \<lparr>globals = \<lparr>WHISPER_MODEL = str ''base'', COMPUTE = str ''auto'', device = str ''auto'',
                    compute_type = str ''int8'', model = ()\<rparr>, engine_calls = []\<rparr>
       (POST_transcribe (Some \<lparr>content = replicate 1500 0\<rparr>)))) =
     [\<lparr>self = (), arg_audio = replicate 1500 0, arg_beam_size = 1, arg_vad_filter = True,
       arg_language = str ''en''\<rparr>]"
    using at_input [THEN conjunct2, THEN conjunct2, THEN conjunct1] by simp
  have same: "transcribe
       (\<lambda>h c. if arg_beam_size c = 1 \<and> arg_vad_filter c \<and> arg_language c = str ''en''
               then Returned [Inr \<lparr>seg_text = str ''hello''\<rparr>] \<lparr>language = str ''en''\<rparr>
               else Raised (Exception (str ''ValueError'') (str ''other call'')))
       \<lparr>globals = \<lparr>WHISPER_MODEL = str ''base'', COMPUTE = str ''auto'', device = str ''auto'',
                    compute_type = str ''int8'', model = ()\<rparr>, engine_calls = []\<rparr>
       \<lparr>content = replicate 1500 0\<rparr> =
     transcribe
       (\<lambda>h c. Returned [Inr \<lparr>seg_text = str ''hello''\<rparr>] \<lparr>language = str ''en''\<rparr>)
       \<lparr>globals = \<lparr>WHISPER_MODEL = str ''base'', COMPUTE = str ''auto'', device = str ''auto'',
                    compute_type = str ''int8'', model = ()\<rparr>, engine_calls = []\<rparr>
       \<lparr>content = replicate 1500 0\<rparr>"
    using at_input [THEN conjunct2, THEN conjunct2, THEN conjunct2,
        THEN spec [where x =
          "\<lambda>h c. if arg_beam_size c = 1 \<and> arg_vad_filter c \<and> arg_language c = str ''en''
               then Returned [Inr \<lparr>seg_text = str ''hello''\<rparr>] \<lparr>language = str ''en''\<rparr>
               else Raised (Exception (str ''ValueError'') (str ''other call''))"]]
    by simp
  from log same show ?thesis by (rule conjI)
qed

text \<open>
  C9. No handler writes the module's globals (model size, compute preference, device,
  compute type, model instance): they are the same after the \<^verbatim>\<open>transcribe\<close> handler,
  after any single request and after any sequence of requests as before. They are bound
  by \<open>module_init\<close> alone, which no handler calls.
\<close>

theorem globals_never_written:
  "globals (snd (transcribe eng w audio)) = globals w \<and>
   globals (snd (app errs eng w req)) = globals w \<and>
   globals (snd (serve errs eng w reqs)) = globals w"
  by (simp only: transcribe_globals app_globals serve_globals)

text \<open>
  C9 at a sequence of a successful transcription, a health check and an empty upload.
\<close>

theorem globals_never_written_witness:
  "globals (snd (serve [] (\<lambda>h c. Returned [Inr \<lparr>seg_text = str ''hello''\<rparr>] \<lparr>language = str ''en''\<rparr>)
       \<lparr>globals = \<lparr>WHISPER_MODEL = str ''base'', COMPUTE = str ''auto'', device = str ''auto'',
                    compute_type = str ''int8'', model = ()\<rparr>, engine_calls = []\<rparr>
       [POST_transcribe (Some \<lparr>content = replicate 1500 0\<rparr>), GET_health,
        POST_transcribe (Some \<lparr>content = []\<rparr>)])) =
     \<lparr>WHISPER_MODEL = str ''base'', COMPUTE = str ''auto'', device = str ''auto'',
      compute_type = str ''int8'', model = ()\<rparr>"
  using
    globals_never_written [of
      "\<lambda>h c. Returned [Inr \<lparr>seg_text = str ''hello''\<rparr>] \<lparr>language = str ''en''\<rparr>"
      "\<lparr>globals = \<lparr>WHISPER_MODEL = str ''base'', COMPUTE = str ''auto'', device = str ''auto'',
                   compute_type = str ''int8'', model = ()\<rparr>, engine_calls = []\<rparr>"
      "\<lparr>content = []\<rparr>" "[]" GET_health
      "[POST_transcribe (Some \<lparr>content = replicate 1500 0\<rparr>), GET_health,
        POST_transcribe (Some \<lparr>content = []\<rparr>)]"]
  by simp

text \<open>
  C10. For a payload shorter than 1500 bytes the handler raises the status 400 exception
  and the world is as before: no call is made on the engine.
\<close>

theorem short_payload_no_engine_call:
  assumes "length (content audio) < 1500"
  shows "transcribe eng w audio =
       (Inl \<lparr>status_code = 400, detail = str ''audio too short'', cause = None\<rparr>, w) \<and>
     engine_calls (snd (app errs eng w (POST_transcribe (Some audio)))) = engine_calls w"
  using assms by (simp add: app_snd_transcribe transcribe_short)

text \<open>
  C10 at a payload of 1499 zero bytes.
\<close>

theorem short_payload_no_engine_call_witness:
  "engine_calls (snd (app []
       (\<lambda>h c. Returned [Inr \<lparr>seg_text = str ''hello''\<rparr>] \<lparr>language = str ''en''\<rparr>)
       \<lparr>globals = \<lparr>WHISPER_MODEL = str ''base'', COMPUTE = str ''auto'', device = str ''auto'',
                    compute_type = str ''int8'', model = ()\<rparr>, engine_calls = []\<rparr>
       (POST_transcribe (Some \<lparr>content = replicate 1499 0\<rparr>)))) = []"
  using
    short_payload_no_engine_call [of "\<lparr>content = replicate 1499 0\<rparr>"
      "\<lambda>h c. Returned [Inr \<lparr>seg_text = str ''hello''\<rparr>] \<lparr>language = str ''en''\<rparr>"
      "\<lparr>globals = \<lparr>WHISPER_MODEL = str ''base'', COMPUTE = str ''auto'', device = str ''auto'',
                   compute_type = str ''int8'', model = ()\<rparr>, engine_calls = []\<rparr>" "[]"]
  by simp

end
